theory Spec2Isabelle
  imports Main "HOL-Library.Word"
begin

section \<open>The host environment of a process\<close>

text \<open>
  \<^verbatim>\<open>src/main.cc\<close> is one translation unit: an include, three module imports and the
  entry point
  \<^verbatim>\<open>
  #include <everything>

  import rose.filesystem;
  import rose.random;
  import rose.span;

  int
  main() {
      return EXIT_SUCCESS;
  }
  \<close>
  Everything a C++ program could observe or change outside its own memory is collected
  in one record, which the entry point receives and hands back: the command line, the
  environment variables, the file system, the network, the source of randomness and the
  two standard output streams. A facility the host does not offer is \<open>None\<close>.
\<close>

record host =
  argv :: "string list"
  environ :: "(string \<times> string) list"
  files :: "(string \<times> string) list option"
  network :: "string list option"
  entropy :: "nat list option"
  stdout :: string
  stderr :: string

text \<open>
  The ways a C++ entry point can end without returning a status: an exception that leaves
  \<^verbatim>\<open>main\<close>, or a call that aborts the process.
\<close>

datatype error = Uncaught_exception string | Aborted

text \<open>The C++ type \<^verbatim>\<open>int\<close>: a 32-bit word, read as a signed value by \<open>sint\<close>.\<close>

type_synonym c_int = "32 word"

text \<open>
  Modelled from the spec: the macro \<^verbatim>\<open>EXIT_SUCCESS\<close>, which \<^verbatim>\<open>main.cc\<close> obtains through
  \<^verbatim>\<open>#include <everything>\<close>; that header is not among the sources. The specification
  calls it the conventional success exit code of the platform's process-termination
  convention; the C library headers of hosted implementations define the macro as 0,
  and that value is taken here.
\<close>

definition EXIT_SUCCESS :: c_int where
  "EXIT_SUCCESS = 0"

text \<open>
  The three imported modules, \<^verbatim>\<open>rose.filesystem\<close>, \<^verbatim>\<open>rose.random\<close> and \<^verbatim>\<open>rose.span\<close>.
  Their interfaces are not among the sources, so whatever each of them exports is a
  parameter of the translation unit, of a type left open.
\<close>

record ('f, 'r, 's) imported =
  rose_filesystem :: 'f
  rose_random :: 'r
  rose_span :: 's

section \<open>The entry point\<close>

text \<open>
  \<^verbatim>\<open>int main() { return EXIT_SUCCESS; }\<close> in scope of the three imports. The function
  declares no parameter; the host is threaded through as the state it could act on, and
  the result is the returned status or the error that ended the call.
\<close>

definition main :: "('f, 'r, 's) imported \<Rightarrow> host \<Rightarrow> (error + c_int) \<times> host" where
  "main m h = (Inr EXIT_SUCCESS, h)"

section \<open>The process as a transition system\<close>

text \<open>
  A process is either still running its entry point or has ended with what the entry
  point produced. A return from \<^verbatim>\<open>main\<close> ends the process with the returned value as
  its status.
\<close>

datatype control = Running | Terminated "error + c_int"

type_synonym process = "control \<times> host"

inductive step :: "('f, 'r, 's) imported \<Rightarrow> process \<Rightarrow> process \<Rightarrow> bool"
  for m :: "('f, 'r, 's) imported"
where
  Return: "main m h = (r, h') \<Longrightarrow> step m (Running, h) (Terminated r, h')"

definition terminal :: "process \<Rightarrow> bool" where
  "terminal s = (case fst s of Running \<Rightarrow> False | Terminated r \<Rightarrow> True)"

text \<open>Starting the program on a host and letting it run to its end.\<close>

definition run :: "('f, 'r, 's) imported \<Rightarrow> host \<Rightarrow> process" where
  "run m h = (case main m h of (r, h') \<Rightarrow> (Terminated r, h'))"

section \<open>Repeated and interleaved runs\<close>

text \<open>
  A host sees a sequence of jobs: a run of this program, or a run of some other program,
  which may change the host in any way. \<open>schedule\<close> executes the jobs in order and
  collects what each run of this program produced.
\<close>

datatype job = This_program | Other_program "host \<Rightarrow> host"

primrec schedule ::
  "('f, 'r, 's) imported \<Rightarrow> job list \<Rightarrow> host \<Rightarrow> (error + c_int) list \<times> host" where
  "schedule m [] h = ([], h)"
| "schedule m (j # js) h =
     (case j of
        This_program \<Rightarrow>
          (case main m h of (r, h') \<Rightarrow>
             (case schedule m js h' of (rs, h'') \<Rightarrow> (r # rs, h'')))
      | Other_program f \<Rightarrow> schedule m js (f h))"

primrec runs_of_this :: "job list \<Rightarrow> nat" where
  "runs_of_this [] = 0"
| "runs_of_this (j # js) =
     (case j of This_program \<Rightarrow> Suc (runs_of_this js) | Other_program f \<Rightarrow> runs_of_this js)"

section \<open>Basic facts\<close>

lemma main_eq: "main m h = (Inr EXIT_SUCCESS, h)"
  by (simp add: main_def)

lemma step_iff:
  "step m s s' \<longleftrightarrow> (\<exists>h. s = (Running, h) \<and> s' = (Terminated (Inr EXIT_SUCCESS), h))"
  by (auto simp: step.simps main_def)

lemma step_from_running:
  "step m (Running, h) s' \<longleftrightarrow> s' = (Terminated (Inr EXIT_SUCCESS), h)"
  by (auto simp: step_iff)

lemma no_step_from_terminated: "\<not> step m (Terminated r, h) s'"
  by (simp add: step_iff)

lemma reachable_iff:
  "(step m)\<^sup>*\<^sup>* (Running, h) s \<longleftrightarrow>
     s = (Running, h) \<or> s = (Terminated (Inr EXIT_SUCCESS), h)"
proof
  assume "(step m)\<^sup>*\<^sup>* (Running, h) s"
  then show "s = (Running, h) \<or> s = (Terminated (Inr EXIT_SUCCESS), h)"
  proof (induction rule: rtranclp_induct)
    case base
    then show ?case by simp
  next
    case (step y z)
    then show ?case by (auto simp: step_iff)
  qed
next
  assume "s = (Running, h) \<or> s = (Terminated (Inr EXIT_SUCCESS), h)"
  then show "(step m)\<^sup>*\<^sup>* (Running, h) s"
    by (auto simp: step_from_running)
qed

lemma terminal_simps:
  "terminal (Running, h) = False"
  "terminal (Terminated r, h) = True"
  by (simp_all add: terminal_def)

lemma run_eq: "run m h = (Terminated (Inr EXIT_SUCCESS), h)"
  by (simp add: run_def main_eq)

lemma steps_bounded:
  assumes "(step m ^^ n) (Running, h) s"
  shows "n \<le> 1"
proof (rule ccontr)
  assume "\<not> n \<le> 1"
  then obtain k where n: "n = Suc (Suc k)"
    by (metis not_less_eq_eq One_nat_def nat.exhaust le0)
  from assms obtain y where y: "step m (Running, h) y" and rest: "(step m ^^ Suc k) y s"
    unfolding n by (blast dest: relpowp_Suc_D2)
  from rest obtain z where "step m y z"
    by (blast dest: relpowp_Suc_D2)
  with y show False
    by (simp add: step_iff)
qed

lemma schedule_results:
  "fst (schedule m js h) = replicate (runs_of_this js) (Inr EXIT_SUCCESS)"
proof (induction js arbitrary: h)
  case Nil
  show ?case by simp
next
  case (Cons j js)
  show ?case
    by (cases j) (simp_all add: main_eq Cons.IH case_prod_beta)
qed

section \<open>The claims\<close>

text \<open>
  C1. For every invocation the entry point ends the process with the success status:
  on every host the value returned is \<open>EXIT_SUCCESS\<close>, and over all hosts the set of
  outcomes of the entry point is the single success status, so no other status and no
  failure is ever produced.
\<close>

theorem main_reports_success:
  "fst (main m h) = Inr EXIT_SUCCESS \<and>
   range (\<lambda>h. fst (main m h)) = {Inr EXIT_SUCCESS}"
  by (auto simp: main_eq)

text \<open>
  C4. Running the entry point leaves the host as it found it: the whole host record is
  returned unchanged, so in particular no file is written, nothing is sent to the
  network, and nothing is appended to either standard stream.
\<close>

theorem main_leaves_host_unchanged:
  "snd (main m h) = h \<and>
   files (snd (main m h)) = files h \<and>
   network (snd (main m h)) = network h \<and>
   stdout (snd (main m h)) = stdout h \<and>
   stderr (snd (main m h)) = stderr h"
  by (simp add: main_eq)

text \<open>
  C2. Two invocations with any two argument vectors, the empty one included, end with the
  same status, which is success. The arguments are never read: running the entry point
  on a host with other arguments gives the same status and the same host, up to the
  arguments put in.
\<close>

theorem main_ignores_arguments:
  "fst (main m (h\<lparr>argv := args1\<rparr>)) = fst (main m (h\<lparr>argv := args2\<rparr>)) \<and>
   fst (main m (h\<lparr>argv := args1\<rparr>)) = Inr EXIT_SUCCESS \<and>
   fst (main m (h\<lparr>argv := []\<rparr>)) = Inr EXIT_SUCCESS \<and>
   main m (h\<lparr>argv := args1\<rparr>) = (fst (main m h), (snd (main m h))\<lparr>argv := args1\<rparr>)"
  by (simp add: main_eq)

text \<open>
  C3. The entry point always terminates, after a bounded number of steps: from the running
  state on any host the process takes a step to the state \<open>run\<close> computes, that state is
  terminal and has no successor, and every execution from the running state has at most
  one step.
\<close>

theorem process_terminates_in_one_step:
  "step m (Running, h) (run m h) \<and> terminal (run m h) \<and>
   (\<forall>s'. \<not> step m (run m h) s') \<and>
   (\<forall>n s. (step m ^^ n) (Running, h) s \<longrightarrow> n \<le> 1)"
  by (auto simp: run_eq step_from_running terminal_simps no_step_from_terminated
      dest: steps_bounded)

theorem process_terminates_in_one_step_witness:
  "(step \<lparr>rose_filesystem = (), rose_random = (), rose_span = ()\<rparr> ^^ 1)
     (Running, \<lparr>argv = [''--flag'', ''value''], environ = [], files = None,
        network = None, entropy = None, stdout = [], stderr = []\<rparr>)
     (Terminated (Inr EXIT_SUCCESS), \<lparr>argv = [''--flag'', ''value''], environ = [],
        files = None, network = None, entropy = None, stdout = [], stderr = []\<rparr>) \<and>
   (1::nat) \<le> 1"
  using process_terminates_in_one_step
    [of "\<lparr>rose_filesystem = (), rose_random = (), rose_span = ()\<rparr>"
        "\<lparr>argv = [''--flag'', ''value''], environ = [], files = None,
          network = None, entropy = None, stdout = [], stderr = []\<rparr>"]
  by (simp add: run_def main_def eq_OO)

text \<open>
  C5. The entry point cannot fail: on no host is its result an error value, and no state
  reachable from the running state is a termination with an error.
\<close>

theorem main_cannot_fail:
  "\<not> isl (fst (main m h)) \<and> (\<forall>e. fst (main m h) \<noteq> Inl e) \<and>
   (\<forall>e h'. \<not> (step m)\<^sup>*\<^sup>* (Running, h) (Terminated (Inl e), h'))"
  by (simp add: main_eq reachable_iff)

text \<open>
  C6. Running the program any number of times, in any order relative to runs of other
  programs, gives success on every run: whatever the sequence of jobs and whatever the
  other programs do to the host, the results of this program's runs are all the success
  status, one per run; and running the entry point again on the host it returned gives
  the same result as the first run.
\<close>

theorem repeated_runs_all_succeed:
  "fst (schedule m js h) = replicate (runs_of_this js) (Inr EXIT_SUCCESS) \<and>
   main m (snd (main m h)) = main m h"
  by (simp add: schedule_results main_eq)

text \<open>
  C7. Two invocations on any two hosts end with the same status, which is success; this
  covers a host with any environment variables and a host with no readable file system,
  no network and no source of randomness. The entry point reads nothing of the host: its
  result on one host is the status obtained on any other host, paired with its own host
  unchanged.
\<close>

theorem main_ignores_environment:
  "fst (main m h1) = fst (main m h2) \<and> fst (main m h1) = Inr EXIT_SUCCESS \<and>
   fst (main m (h\<lparr>environ := e\<rparr>)) = Inr EXIT_SUCCESS \<and>
   fst (main m (h\<lparr>files := None, network := None, entropy := None\<rparr>)) = Inr EXIT_SUCCESS \<and>
   main m h2 = (fst (main m h1), h2)"
  by (simp add: main_eq)

text \<open>
  C8. The process has two states, running (initial) and terminated with success
  (terminal), and one unconditional transition between them: the control states
  reachable from the running state are exactly these two, the step relation is exactly
  the transition from running to terminated with success on the same host, the running
  state is not terminal, and the only reachable terminal state is the success state.
\<close>

theorem process_has_two_states:
  "{c. \<exists>h'. (step m)\<^sup>*\<^sup>* (Running, h) (c, h')} = {Running, Terminated (Inr EXIT_SUCCESS)} \<and>
   (step m s s' \<longleftrightarrow> (\<exists>h. s = (Running, h) \<and> s' = (Terminated (Inr EXIT_SUCCESS), h))) \<and>
   \<not> terminal (Running, h) \<and>
   {s. (step m)\<^sup>*\<^sup>* (Running, h) s \<and> terminal s} = {(Terminated (Inr EXIT_SUCCESS), h)}"
proof -
  have "{c. \<exists>h'. (step m)\<^sup>*\<^sup>* (Running, h) (c, h')} = {Running, Terminated (Inr EXIT_SUCCESS)}"
    by (auto simp: reachable_iff)
  moreover have "{s. (step m)\<^sup>*\<^sup>* (Running, h) s \<and> terminal s} = {(Terminated (Inr EXIT_SUCCESS), h)}"
    by (auto simp: reachable_iff terminal_simps)
  ultimately show ?thesis
    by (simp add: step_iff terminal_simps)
qed

text \<open>
  C10. The status the entry point returns is exactly the value of \<open>EXIT_SUCCESS\<close>, the
  integer 0: the body of the entry point is the single return of that constant, with the
  host untouched, and the constant, read as a signed integer, is 0.
\<close>

theorem main_returns_zero:
  "main m h = (Inr EXIT_SUCCESS, h) \<and> EXIT_SUCCESS = 0 \<and> sint EXIT_SUCCESS = 0 \<and>
   fst (main m h) = Inr 0"
  by (simp add: main_def EXIT_SUCCESS_def)

end
